theory Spec2Isabelle
  imports Main
begin

section \<open>Python strings and exceptions\<close>

text \<open>
  The helper is a Python 3 script working on \<open>str\<close> values. A \<open>str\<close> is modelled as a
  \<open>string\<close> (a list of characters, each standing for one code point below 256).
  Exceptions are values: every \<open>raise\<close> of the script, and every exception the
  interpreter raises on its behalf (a failed tuple unpacking, an attribute lookup on
  \<open>None\<close>, an index out of range, a call with the wrong number of arguments), is a
  constructor of \<open>error\<close>.  The script raises \<open>ValueError\<close> at several places; the
  argument of the constructor says which one.
\<close>

datatype value_error =
    InvalidRefSpec              \<comment> \<open>\<open>"Invalid refspec: ..."\<close> in \<open>RefSpec.parse\<close>\<close>
  | InvalidDirSpec              \<comment> \<open>\<open>"Invalid dirspec: ..."\<close> in \<open>DirSpec.parse\<close>\<close>
  | MissingConfiguration        \<comment> \<open>\<open>"Missing one or more of remote.X.url/dirspec/fetch"\<close>\<close>
  | NestedSubdirRemote          \<comment> \<open>\<open>"remote.X.url cannot start with "subdir:" ..."\<close>\<close>
  | RefSpecNamespaceMismatch    \<comment> \<open>\<open>"Cannot work with refspec ..."\<close> in \<open>split_refspec\<close>\<close>
  | UnpackMismatch              \<comment> \<open>\<open>a, b = xs\<close> where \<open>xs\<close> does not have two elements\<close>

datatype error =
    ValueError value_error
  | AttributeError string       \<comment> \<open>the attribute that was looked up and not found\<close>
  | NotImplementedError         \<comment> \<open>raised by \<open>DirSpec.ltr\<close>\<close>
  | RuntimeError                \<comment> \<open>raised by \<open>do_fetch\<close>\<close>
  | IndexError
  | TypeError                   \<comment> \<open>a handler called with the wrong number of arguments\<close>
  | CalledProcessError          \<comment> \<open>a subprocess returned a non-zero exit status\<close>

text \<open>The names the specification gives to three of these signals.\<close>

abbreviation UnsupportedDirSpec :: error where
  "UnsupportedDirSpec \<equiv> NotImplementedError"

abbreviation UnexpectedFetchCall :: error where
  "UnexpectedFetchCall \<equiv> RuntimeError"

abbreviation UnknownCommand :: "string \<Rightarrow> error" where
  "UnknownCommand name \<equiv> AttributeError (''do_'' @ name)"

text \<open>\<open>s.startswith(p)\<close> and \<open>s.endswith(p)\<close>.\<close>

definition startswith :: "string \<Rightarrow> string \<Rightarrow> bool" where
  "startswith s p = (take (length p) s = p)"

definition endswith :: "string \<Rightarrow> string \<Rightarrow> bool" where
  "endswith s p = (length p \<le> length s \<and> drop (length s - length p) s = p)"

text \<open>
  \<open>s.split(c)\<close> for a one-character separator: the pieces between the occurrences of
  \<open>c\<close>, empty pieces included; \<open>''.split(c)\<close> is \<open>['']\<close>.
\<close>

fun split_sep :: "char \<Rightarrow> string \<Rightarrow> string list" where
  "split_sep c [] = [[]]"
| "split_sep c (x # xs) =
     (if x = c then [] # split_sep c xs
      else (case split_sep c xs of
              [] \<Rightarrow> [[x]]
            | p # ps \<Rightarrow> (x # p) # ps))"

text \<open>
  The characters \<open>str.isspace\<close> accepts among the code points below 256: tab, line feed,
  vertical tab, form feed, carriage return, the four separators 0x1C..0x1F, space,
  next-line (0x85) and no-break space (0xA0).
\<close>

definition whitespace :: "char list" where
  "whitespace =
     [CHR 0x09, CHR 0x0A, CHR 0x0B, CHR 0x0C, CHR 0x0D,
      CHR 0x1C, CHR 0x1D, CHR 0x1E, CHR 0x1F, CHR 0x20, CHR 0x85, CHR 0xA0]"

definition is_space :: "char \<Rightarrow> bool" where
  "is_space c = (c \<in> set whitespace)"

text \<open>\<open>s.rstrip()\<close> and \<open>s.rstrip(c)\<close> for a one-character argument.\<close>

definition rstrip :: "string \<Rightarrow> string" where
  "rstrip s = rev (dropWhile is_space (rev s))"

definition rstrip_char :: "char \<Rightarrow> string \<Rightarrow> string" where
  "rstrip_char c s = rev (dropWhile (\<lambda>x. x = c) (rev s))"

text \<open>
  \<open>s.split()\<close> with no argument: the maximal runs of non-whitespace characters.  The first
  argument is the word read so far.
\<close>

fun split_ws_acc :: "string \<Rightarrow> string \<Rightarrow> string list" where
  "split_ws_acc cur [] = (if cur = [] then [] else [cur])"
| "split_ws_acc cur (c # cs) =
     (if is_space c
      then (if cur = [] then split_ws_acc [] cs else cur # split_ws_acc [] cs)
      else split_ws_acc (cur @ [c]) cs)"

definition split_ws :: "string \<Rightarrow> string list" where
  "split_ws s = split_ws_acc [] s"

text \<open>\<open>'{}'.format(x)\<close> for a value that is a \<open>str\<close> or \<open>None\<close>.\<close>

definition format_opt :: "string option \<Rightarrow> string" where
  "format_opt x = (case x of None \<Rightarrow> ''None'' | Some s \<Rightarrow> s)"

section \<open>RefSpec\<close>

record RefSpec =
  left_prefix :: string
  right_prefix :: string
  force :: bool

definition RefSpec_parse :: "string \<Rightarrow> error + RefSpec" where
  "RefSpec_parse refspec =
     (let force = startswith refspec ''+'';
          refspec = (if force then drop 1 refspec else refspec)
      in case split_sep (CHR '':'') refspec of
           [l, r] \<Rightarrow>
             if \<not> (endswith l ''*'' \<and> endswith r ''*'')
             then Inl (ValueError InvalidRefSpec)
             else Inr \<lparr>left_prefix = butlast l, right_prefix = butlast r, force = force\<rparr>
         | _ \<Rightarrow> Inl (ValueError UnpackMismatch))"

definition RefSpec_str :: "RefSpec \<Rightarrow> string" where
  "RefSpec_str self =
     (if force self then ''+'' else '''') @ left_prefix self @ ''*:'' @ right_prefix self @ ''*''"

definition ltr :: "RefSpec \<Rightarrow> string \<Rightarrow> string option" where
  "ltr self left_ref =
     (if startswith left_ref (left_prefix self)
      then Some (right_prefix self @ drop (length (left_prefix self)) left_ref)
      else None)"

definition rtl :: "RefSpec \<Rightarrow> string \<Rightarrow> string option" where
  "rtl self right_ref =
     (if startswith right_ref (right_prefix self)
      then Some (left_prefix self @ drop (length (right_prefix self)) right_ref)
      else None)"

definition with_left :: "RefSpec \<Rightarrow> string \<Rightarrow> bool option \<Rightarrow> RefSpec" where
  "with_left self new_left force_arg =
     (let f = (case force_arg of None \<Rightarrow> force self | Some b \<Rightarrow> b)
      in \<lparr>left_prefix = new_left, right_prefix = right_prefix self, force = f\<rparr>)"

definition with_right :: "RefSpec \<Rightarrow> string \<Rightarrow> bool option \<Rightarrow> RefSpec" where
  "with_right self new_right force_arg =
     (let f = (case force_arg of None \<Rightarrow> force self | Some b \<Rightarrow> b)
      in \<lparr>left_prefix = left_prefix self, right_prefix = new_right, force = f\<rparr>)"

section \<open>DirSpec\<close>

record DirSpec =
  left_dir :: string
  right_dir :: string

text \<open>
  \<open>DirSpec.parse\<close> is handed whatever \<open>config_get_one\<close> returned, which is \<open>None\<close> for a
  key that is not configured; \<open>None.split\<close> raises \<open>AttributeError\<close>.
\<close>

definition DirSpec_parse :: "string option \<Rightarrow> error + DirSpec" where
  "DirSpec_parse dirspec =
     (case dirspec of
        None \<Rightarrow> Inl (AttributeError ''split'')
      | Some s \<Rightarrow>
          (case split_sep (CHR '':'') s of
             [l, r] \<Rightarrow>
               if startswith l ''/'' \<or> startswith r ''/''
               then Inl (ValueError InvalidDirSpec)
               else Inr \<lparr>left_dir = rstrip_char (CHR ''/'') l,
                         right_dir = rstrip_char (CHR ''/'') r\<rparr>
           | _ \<Rightarrow> Inl (ValueError UnpackMismatch)))"

definition DirSpec_str :: "DirSpec \<Rightarrow> string" where
  "DirSpec_str self = left_dir self @ '':'' @ right_dir self"

definition DirSpec_ltr :: "DirSpec \<Rightarrow> string \<Rightarrow> error + string" where
  "DirSpec_ltr self tree_sha1 =
     (if left_dir self \<noteq> [] then Inl NotImplementedError
      else if right_dir self \<noteq> [] then Inl NotImplementedError
      else Inr tree_sha1)"

section \<open>The command runner\<close>

text \<open>
  The script runs the \<open>git\<close> binary as a subprocess (\<open>check_output\<close>, \<open>check_call\<close>,
  \<open>Popen\<close>).  The binary is outside the script, so it is a parameter of the model: a
  runner takes the argument vector and the state of the world outside the script (the
  repository, the remote) and returns the text of the subprocess's standard output, its
  exit status and the new state of the world.  Logging goes to standard error and is not
  modelled.
\<close>

type_synonym 'w runner = "string list \<Rightarrow> 'w \<Rightarrow> (string \<times> nat) \<times> 'w"

text \<open>
  Iterating over a pipe yields its lines, each with its line feed (the last one possibly
  without).
\<close>

fun stdout_lines :: "string \<Rightarrow> string list" where
  "stdout_lines [] = []"
| "stdout_lines (c # cs) =
     (if c = CHR 0x0A then [c] # stdout_lines cs
      else (case stdout_lines cs of
              [] \<Rightarrow> [[c]]
            | l # ls \<Rightarrow> (c # l) # ls))"

definition check_output :: "'w runner \<Rightarrow> string list \<Rightarrow> 'w \<Rightarrow> (error + string) \<times> 'w" where
  "check_output run argv w =
     (case run argv w of
        ((out, retcode), w') \<Rightarrow>
          if retcode \<noteq> 0 then (Inl CalledProcessError, w') else (Inr out, w'))"

definition check_call :: "'w runner \<Rightarrow> string list \<Rightarrow> 'w \<Rightarrow> (error + unit) \<times> 'w" where
  "check_call run argv w =
     (case run argv w of
        ((out, retcode), w') \<Rightarrow>
          if retcode \<noteq> 0 then (Inl CalledProcessError, w') else (Inr (), w'))"

text \<open>
  \<open>check_output_lines\<close> is a generator: it yields the lines and raises
  \<open>CalledProcessError\<close> after the last one when the exit status is not zero.  The model
  returns the lines together with the flag "raises at the end".
\<close>

definition check_output_lines :: "'w runner \<Rightarrow> string list \<Rightarrow> 'w \<Rightarrow> (string list \<times> bool) \<times> 'w" where
  "check_output_lines run argv w =
     (case run argv w of
        ((out, retcode), w') \<Rightarrow> ((stdout_lines out, retcode \<noteq> 0), w'))"

section \<open>Git\<close>

record Git =
  git_dir :: string

definition args :: "Git \<Rightarrow> string list \<Rightarrow> string list" where
  "args self as = [''git'', ''--git-dir='' @ git_dir self] @ as"

definition config_get_one :: "'w runner \<Rightarrow> Git \<Rightarrow> string \<Rightarrow> 'w \<Rightarrow> string option \<times> 'w" where
  "config_get_one run self key w =
     (case check_output run (args self [''config'', ''--get'', key]) w of
        (Inl e, w') \<Rightarrow> (None, w')
      | (Inr out, w') \<Rightarrow> (Some (rstrip out), w'))"

text \<open>The \<open>CalledProcessError\<close> at the end of the lines is caught and dropped.\<close>

definition config_get_all :: "'w runner \<Rightarrow> Git \<Rightarrow> string \<Rightarrow> 'w \<Rightarrow> string list \<times> 'w" where
  "config_get_all run self key w =
     (case check_output_lines run (args self [''config'', ''--get'', key]) w of
        ((ls, failed), w') \<Rightarrow> (map rstrip ls, w'))"

definition fetch :: "'w runner \<Rightarrow> Git \<Rightarrow> string \<Rightarrow> string list \<Rightarrow> 'w \<Rightarrow> (error + unit) \<times> 'w" where
  "fetch run self remote_or_url refspecs w =
     check_call run (args self ([''fetch'', remote_or_url] @ refspecs)) w"

text \<open>
  \<open>refs\<close> is a generator too.  Each line is split at the NUL character into exactly two
  fields; any other number of fields raises \<open>ValueError\<close> at that line.  The model
  returns, for each line, the pair or the error, and the flag of \<open>check_output_lines\<close>.
\<close>

definition refs_line :: "string \<Rightarrow> error + (string \<times> string)" where
  "refs_line line =
     (case split_sep (CHR 0x00) (rstrip line) of
        [v, refname] \<Rightarrow> Inr (v, refname)
      | _ \<Rightarrow> Inl (ValueError UnpackMismatch))"

definition refs :: "'w runner \<Rightarrow> Git \<Rightarrow> string \<Rightarrow> 'w \<Rightarrow> ((error + (string \<times> string)) list \<times> bool) \<times> 'w" where
  "refs run self pattern w =
     (case check_output_lines run
             (args self [''for-each-ref'', ''--format=%(objectname)%00%(refname)'', pattern]) w of
        ((ls, failed), w') \<Rightarrow> ((map refs_line ls, failed), w'))"

section \<open>RemoteSubdirHelper\<close>

record RemoteSubdirHelper =
  git :: Git
  remote :: string
  url :: string
  dirspec :: DirSpec
  refspecs :: "RefSpec list"
  unmapped_ref_prefix :: string
  mapped_ref_prefix :: string
  fetchspecs :: "RefSpec list"
  mapspecs :: "RefSpec list"

definition UnmappedRefPrefix :: "string \<Rightarrow> string" where
  "UnmappedRefPrefix name = ''refs/remote-subdir/'' @ name @ ''/''"

definition MappedRefPrefix :: "string \<Rightarrow> string" where
  "MappedRefPrefix name = ''refs/remotes/'' @ name @ ''/''"

definition split_refspec :: "RemoteSubdirHelper \<Rightarrow> RefSpec \<Rightarrow> error + (RefSpec \<times> RefSpec)" where
  "split_refspec self refspec =
     (let remove = mapped_ref_prefix self;
          insert = unmapped_ref_prefix self
      in if \<not> startswith (right_prefix refspec) remove
         then Inl (ValueError RefSpecNamespaceMismatch)
         else (let updated = insert @ drop (length remove) (right_prefix refspec)
               in Inr (with_right refspec updated (Some True),
                       with_left refspec updated None)))"

text \<open>The two list comprehensions of the constructor: the first element that raises ends them.\<close>

fun parse_refspecs :: "string list \<Rightarrow> error + RefSpec list" where
  "parse_refspecs [] = Inr []"
| "parse_refspecs (s # ss) =
     (case RefSpec_parse s of
        Inl e \<Rightarrow> Inl e
      | Inr r \<Rightarrow> (case parse_refspecs ss of Inl e \<Rightarrow> Inl e | Inr rs \<Rightarrow> Inr (r # rs)))"

fun split_refspecs :: "RemoteSubdirHelper \<Rightarrow> RefSpec list \<Rightarrow> error + (RefSpec \<times> RefSpec) list" where
  "split_refspecs self [] = Inr []"
| "split_refspecs self (r # rs) =
     (case split_refspec self r of
        Inl e \<Rightarrow> Inl e
      | Inr p \<Rightarrow> (case split_refspecs self rs of Inl e \<Rightarrow> Inl e | Inr ps \<Rightarrow> Inr (p # ps)))"

text \<open>
  The constructor.  The three configuration values are read and parsed in the order of the
  source, so \<open>DirSpec.parse\<close> and \<open>RefSpec.parse\<close> run before the test for missing values.
  In that test \<open>self.url\<close> is false when it is \<open>None\<close> or empty, \<open>self.refspecs\<close> when the
  list is empty, and \<open>self.dirspec\<close>, a \<open>DirSpec\<close> object, is never false.
\<close>

definition RemoteSubdirHelper_init ::
    "'w runner \<Rightarrow> string \<Rightarrow> string \<Rightarrow> 'w \<Rightarrow> (error + RemoteSubdirHelper) \<times> 'w" where
  "RemoteSubdirHelper_init run gd remote_name w =
     (let g = \<lparr>git_dir = gd\<rparr> in
      case config_get_one run g (''remote.'' @ remote_name @ ''.url'') w of
        (url_opt, w1) \<Rightarrow>
      case config_get_one run g (''remote.'' @ remote_name @ ''.dirspec'') w1 of
        (ds_opt, w2) \<Rightarrow>
      case DirSpec_parse ds_opt of
        Inl e \<Rightarrow> (Inl e, w2)
      | Inr ds \<Rightarrow>
      case config_get_all run g (''remote.'' @ remote_name @ ''.fetch'') w2 of
        (raw, w3) \<Rightarrow>
      case parse_refspecs raw of
        Inl e \<Rightarrow> (Inl e, w3)
      | Inr rs \<Rightarrow>
      case url_opt of
        None \<Rightarrow> (Inl (ValueError MissingConfiguration), w3)
      | Some u \<Rightarrow>
      if \<not> (u \<noteq> [] \<and> True \<and> rs \<noteq> []) then (Inl (ValueError MissingConfiguration), w3)
      else if startswith u ''subdir:'' then (Inl (ValueError NestedSubdirRemote), w3)
      else
        (let self = \<lparr>git = g, remote = remote_name, url = u, dirspec = ds, refspecs = rs,
                      unmapped_ref_prefix = UnmappedRefPrefix remote_name,
                      mapped_ref_prefix = MappedRefPrefix remote_name,
                      fetchspecs = [], mapspecs = []\<rparr>
         in case split_refspecs self rs of
              Inl e \<Rightarrow> (Inl e, w3)
            | Inr ps \<Rightarrow> (Inr (self\<lparr>fetchspecs := map fst ps, mapspecs := map snd ps\<rparr>), w3)))"

text \<open>
  The handlers write to the output file \<open>f\<close>; the model takes the text written so far and
  returns the text written after the call, also when the handler raises.
\<close>

definition do_capabilities :: "RemoteSubdirHelper \<Rightarrow> string \<Rightarrow> (error + unit) \<times> string" where
  "do_capabilities self f = (Inr (), (f @ ''*fetch'' @ [CHR 0x0A]) @ [CHR 0x0A])"

text \<open>
  The loop of \<open>do_list\<close> over \<open>self.git.refs(...)\<close>: one line is written per ref, and
  \<open>self.fetchspecs[0]\<close> is looked up at each one.
\<close>

fun write_refs :: "RemoteSubdirHelper \<Rightarrow> (error + (string \<times> string)) list \<Rightarrow> string \<Rightarrow> (error + unit) \<times> string" where
  "write_refs self [] f = (Inr (), f)"
| "write_refs self (Inl e # items) f = (Inl e, f)"
| "write_refs self (Inr (v, ref) # items) f =
     (case fetchspecs self of
        [] \<Rightarrow> (Inl IndexError, f)
      | fs0 # _ \<Rightarrow> write_refs self items (f @ v @ '' '' @ format_opt (rtl fs0 ref) @ [CHR 0x0A]))"

definition do_list :: "'w runner \<Rightarrow> RemoteSubdirHelper \<Rightarrow> 'w \<Rightarrow> string \<Rightarrow> (error + unit) \<times> 'w \<times> string" where
  "do_list run self w f =
     (case fetch run (git self) (url self) (map RefSpec_str (fetchspecs self)) w of
        (Inl e, w1) \<Rightarrow> (Inl e, w1, f)
      | (Inr u, w1) \<Rightarrow>
          (case refs run (git self) (unmapped_ref_prefix self) w1 of
             ((items, failed), w2) \<Rightarrow>
               (case write_refs self items f of
                  (Inl e, f') \<Rightarrow> (Inl e, w2, f')
                | (Inr u, f') \<Rightarrow>
                    if failed then (Inl CalledProcessError, w2, f')
                    else (Inr (), w2, f' @ [CHR 0x0A]))))"

definition do_fetch :: "RemoteSubdirHelper \<Rightarrow> string \<Rightarrow> string \<Rightarrow> string \<Rightarrow> (error + unit) \<times> string" where
  "do_fetch self f sha1 name = (Inl RuntimeError, f)"

section \<open>The dispatcher\<close>

text \<open>
  \<open>in_f.readline()\<close>: the text up to and including the next line feed, or all that is
  left; empty at the end of the input.  The second component is the rest of the input.
\<close>

fun readline :: "string \<Rightarrow> string \<times> string" where
  "readline [] = ([], [])"
| "readline (c # cs) =
     (if c = CHR 0x0A then ([c], cs)
      else (case readline cs of (l, rest) \<Rightarrow> (c # l, rest)))"

text \<open>
  \<open>getattr(self, 'do_' + name)(out_f, *rest)\<close>.  The attributes of the helper whose names
  start with \<open>do_\<close> are the three handlers; any other name raises \<open>AttributeError\<close>, and a
  handler called with the wrong number of arguments raises \<open>TypeError\<close>.
\<close>

definition dispatch ::
    "'w runner \<Rightarrow> RemoteSubdirHelper \<Rightarrow> string \<Rightarrow> string list \<Rightarrow> 'w \<Rightarrow> string \<Rightarrow> (error + unit) \<times> 'w \<times> string" where
  "dispatch run self name rest w f =
     (if name = ''capabilities'' then
        (case rest of
           [] \<Rightarrow> (case do_capabilities self f of (r, f') \<Rightarrow> (r, w, f'))
         | _ \<Rightarrow> (Inl TypeError, w, f))
      else if name = ''list'' then
        (case rest of
           [] \<Rightarrow> do_list run self w f
         | _ \<Rightarrow> (Inl TypeError, w, f))
      else if name = ''fetch'' then
        (case rest of
           [sha1, nm] \<Rightarrow> (case do_fetch self f sha1 nm of (r, f') \<Rightarrow> (r, w, f'))
         | _ \<Rightarrow> (Inl TypeError, w, f))
      else (Inl (AttributeError (''do_'' @ name)), w, f))"

lemma readline_append: "fst (readline s) @ snd (readline s) = s"
  by (induction s) (auto split: prod.splits)

lemma readline_shorter:
  assumes "fst (readline s) \<noteq> []"
  shows "length (snd (readline s)) < length s"
proof -
  have "length (fst (readline s)) + length (snd (readline s)) = length s"
    by (metis length_append readline_append)
  with assms show ?thesis by (cases "fst (readline s)") auto
qed

text \<open>
  The session loop.  Flushing the output after each command does not change what was
  written and is not modelled.  The result is the outcome (\<open>Inr ()\<close> when the loop was left by
  \<open>break\<close>, \<open>Inl e\<close> when \<open>e\<close> was raised and ended the session), the world, the input not yet
  read and the output written.
\<close>

function process_commands ::
    "'w runner \<Rightarrow> RemoteSubdirHelper \<Rightarrow> 'w \<Rightarrow> string \<Rightarrow> string \<Rightarrow> (error + unit) \<times> 'w \<times> string \<times> string" where
  "process_commands run self w in_f out_f =
     (let cmdline = fst (readline in_f); in_rest = snd (readline in_f) in
      if cmdline = [] \<or> cmdline = [CHR 0x0A] then (Inr (), w, in_rest, out_f)
      else
        (case split_ws (rstrip cmdline) of
           [] \<Rightarrow> (Inl IndexError, w, in_rest, out_f)
         | name # rest \<Rightarrow>
             (case dispatch run self name rest w out_f of
                (Inl e, w', out') \<Rightarrow> (Inl e, w', in_rest, out')
              | (Inr u, w', out') \<Rightarrow> process_commands run self w' in_rest out')))"
  by pat_completeness auto

termination process_commands
proof (relation "measure (\<lambda>(run, self, w, in_f, out_f). length in_f)")
  show "wf (measure (\<lambda>(run, self, w, in_f, out_f). length in_f))"
    by simp
next
  fix run :: "'w runner" and self w in_f out_f cmdline in_rest and w' :: 'w and out' :: string
  assume "cmdline = fst (readline in_f)" "in_rest = snd (readline in_f)"
    and "\<not> (cmdline = [] \<or> cmdline = [CHR 0x0A])"
  then show "((run, self, w', in_rest, out'), (run, self, w, in_f, out_f))
               \<in> measure (\<lambda>(run, self, w, in_f, out_f). length in_f)"
    using readline_shorter [of in_f] by simp
qed

declare process_commands.simps [simp del]

section \<open>A simulated git for the protocol scenarios\<close>

text \<open>
  The scenarios of the specification need a \<open>git\<close> to talk to.  \<open>sim_git\<close> is a runner
  over a small world: the configuration (key and value pairs, in file order), the refs each
  remote url advertises, the refs of the local repository (object id and name), and the
  log of the argument vectors it was run with.  It answers \<open>config --get\<close> with the values
  of the key, one per line (exit status 1 when there is none), \<open>fetch\<close> by storing, for
  every refspec and every advertised ref the refspec matches, the ref under its mapped
  name, and \<open>for-each-ref\<close> with one \<open>objectname NUL refname\<close> line per local ref whose name
  starts with the pattern.
\<close>

record sim_world =
  sim_config :: "(string \<times> string) list"
  remotes :: "(string \<times> (string \<times> string) list) list"
  local_refs :: "(string \<times> string) list"
  calls :: "string list list"

definition sim_fetch_one :: "(string \<times> string) list \<Rightarrow> string \<Rightarrow> (string \<times> string) list" where
  "sim_fetch_one advertised spec =
     (case RefSpec_parse spec of
        Inl e \<Rightarrow> []
      | Inr r \<Rightarrow>
          concat (map (\<lambda>(v, n). case ltr r n of None \<Rightarrow> [] | Some n' \<Rightarrow> [(v, n')]) advertised))"

definition sim_git :: "sim_world runner" where
  "sim_git argv w =
     (let w' = w\<lparr>calls := calls w @ [argv]\<rparr> in
      case drop 2 argv of
        [] \<Rightarrow> (([], 1), w')
      | cmd # rest \<Rightarrow>
          if cmd = ''config'' then
            (case rest of
               [opt, key] \<Rightarrow>
                 (let vs = map snd (filter (\<lambda>kv. fst kv = key) (sim_config w))
                  in ((concat (map (\<lambda>v. v @ [CHR 0x0A]) vs), if vs = [] then 1 else 0), w'))
             | _ \<Rightarrow> (([], 129), w'))
          else if cmd = ''fetch'' then
            (case rest of
               [] \<Rightarrow> (([], 128), w')
             | u # specs \<Rightarrow>
                 (case map_of (remotes w) u of
                    None \<Rightarrow> (([], 128), w')
                  | Some advertised \<Rightarrow>
                      (([], 0),
                       w'\<lparr>local_refs := local_refs w @ concat (map (sim_fetch_one advertised) specs)\<rparr>)))
          else if cmd = ''for-each-ref'' then
            (case rest of
               [fmt, pattern] \<Rightarrow>
                 ((concat (map (\<lambda>(v, n). v @ [CHR 0x00] @ n @ [CHR 0x0A])
                            (filter (\<lambda>(v, n). startswith n pattern) (local_refs w))), 0), w')
             | _ \<Rightarrow> (([], 129), w'))
          else (([], 1), w'))"

text \<open>
  The remote \<open>origin\<close> of the specification's second scenario, and the helper the
  constructor builds for it.
\<close>

definition origin_world :: sim_world where
  "origin_world =
     \<lparr>sim_config =
        [(''remote.origin.url'', ''https://example/repo.git''),
         (''remote.origin.dirspec'', '':''),
         (''remote.origin.fetch'', ''+refs/heads/*:refs/remotes/origin/*'')],
      remotes = [(''https://example/repo.git'', [(''abc123'', ''refs/heads/main'')])],
      local_refs = [],
      calls = []\<rparr>"

definition origin_refspec :: RefSpec where
  "origin_refspec =
     \<lparr>left_prefix = ''refs/heads/'', right_prefix = ''refs/remotes/origin/'', force = True\<rparr>"

definition origin_fetchspec :: RefSpec where
  "origin_fetchspec =
     \<lparr>left_prefix = ''refs/heads/'', right_prefix = ''refs/remote-subdir/origin/'', force = True\<rparr>"

definition origin_mapspec :: RefSpec where
  "origin_mapspec =
     \<lparr>left_prefix = ''refs/remote-subdir/origin/'', right_prefix = ''refs/remotes/origin/'',
      force = True\<rparr>"

definition origin_helper :: RemoteSubdirHelper where
  "origin_helper =
     \<lparr>git = \<lparr>git_dir = ''.git''\<rparr>,
      remote = ''origin'',
      url = ''https://example/repo.git'',
      dirspec = \<lparr>left_dir = [], right_dir = []\<rparr>,
      refspecs = [origin_refspec],
      unmapped_ref_prefix = ''refs/remote-subdir/origin/'',
      mapped_ref_prefix = ''refs/remotes/origin/'',
      fetchspecs = [origin_fetchspec],
      mapspecs = [origin_mapspec]\<rparr>"

text \<open>The same remote with no \<open>dirspec\<close> configured.\<close>

definition no_dirspec_world :: sim_world where
  "no_dirspec_world =
     origin_world\<lparr>sim_config :=
        [(''remote.origin.url'', ''https://example/repo.git''),
         (''remote.origin.fetch'', ''+refs/heads/*:refs/remotes/origin/*'')]\<rparr>"

text \<open>
  \<open>main\<close>: construct the helper, then run the session on standard input.  The value of the
  environment variable \<open>GIT_DIR\<close> is the parameter \<open>gd\<close>.
\<close>

definition main ::
    "'w runner \<Rightarrow> string \<Rightarrow> string \<Rightarrow> 'w \<Rightarrow> string \<Rightarrow> (error + unit) \<times> 'w \<times> string \<times> string" where
  "main run gd remote_or_url w stdin =
     (case RemoteSubdirHelper_init run gd remote_or_url w of
        (Inl e, w') \<Rightarrow> (Inl e, w', stdin, [])
      | (Inr helper, w') \<Rightarrow> process_commands run helper w' stdin [])"

section \<open>Facts about the string operations\<close>

lemma split_sep_ne: "split_sep c s \<noteq> []"
  by (induction s) (auto split: list.splits)

lemma split_sep_one: "split_sep c s = [r] \<Longrightarrow> s = r"
proof (induction s arbitrary: r)
  case Nil
  then show ?case by simp
next
  case (Cons x xs)
  then show ?case
    by (auto split: if_splits list.splits simp: split_sep_ne)
qed

lemma split_sep_two: "split_sep c s = [l, r] \<Longrightarrow> s = l @ c # r"
proof (induction s arbitrary: l)
  case Nil
  then show ?case by simp
next
  case (Cons x xs)
  show ?case
  proof (cases "x = c")
    case True
    with Cons.prems have "l = []" "split_sep c xs = [r]" by auto
    then show ?thesis using True split_sep_one by auto
  next
    case False
    with Cons.prems obtain p where "split_sep c xs = [p, r]" "l = x # p"
      by (auto split: list.splits)
    with Cons.IH show ?thesis by simp
  qed
qed

lemma endswith_star: "endswith l ''*'' \<Longrightarrow> butlast l @ ''*'' = l"
  by (cases l rule: rev_cases) (auto simp: endswith_def)

lemma startswith_append_drop: "startswith s p \<Longrightarrow> p @ drop (length p) s = s"
  unfolding startswith_def by (metis append_take_drop_id)

lemma startswith_append: "startswith (p @ s) p"
  unfolding startswith_def by simp

lemma split_ws_acc_spaces: "\<forall>c\<in>set s. is_space c \<Longrightarrow> split_ws_acc [] s = []"
  by (induction s) auto

lemma rstrip_spaces: "\<forall>c\<in>set s. is_space c \<Longrightarrow> rstrip s = []"
  by (simp add: rstrip_def dropWhile_eq_Nil_conv)

section \<open>The RefSpec algebra\<close>

text \<open>
  Claim C5 (mapping inverse): for every RefSpec \<open>R\<close> and every ref \<open>x\<close>, if \<open>R.ltr(x)\<close>
  returns a name \<open>y\<close> (and not \<open>None\<close>), then \<open>R.rtl(y)\<close> returns exactly \<open>x\<close>.
\<close>

theorem ltr_rtl_inverse: "ltr R x = Some y \<Longrightarrow> rtl R y = Some x"
  by (auto simp: ltr_def rtl_def startswith_append startswith_append_drop split: if_splits)

theorem ltr_rtl_inverse_witness:
  "ltr origin_refspec ''refs/heads/main'' = Some ''refs/remotes/origin/main''
   \<and> rtl origin_refspec ''refs/remotes/origin/main'' = Some ''refs/heads/main''"
proof -
  have h: "ltr origin_refspec ''refs/heads/main'' = Some ''refs/remotes/origin/main''"
    by code_simp
  from h ltr_rtl_inverse [OF h] show ?thesis by simp
qed

text \<open>
  Claim C6 (round trip): for every text \<open>s\<close> that \<open>RefSpec.parse\<close> accepts, the string form
  of the parsed value is \<open>s\<close> again.
\<close>

theorem parse_str_roundtrip: "RefSpec_parse s = Inr R \<Longrightarrow> RefSpec_str R = s"
proof -
  assume p: "RefSpec_parse s = Inr R"
  define f where "f = startswith s ''+''"
  define s' where "s' = (if f then drop 1 s else s)"
  from p obtain l r where lr: "split_sep (CHR '':'') s' = [l, r]"
    and e: "endswith l ''*''" "endswith r ''*''"
    and R: "R = \<lparr>left_prefix = butlast l, right_prefix = butlast r, force = f\<rparr>"
    unfolding RefSpec_parse_def f_def s'_def Let_def
    by (auto split: list.splits if_splits)
  have s': "s' = l @ CHR '':'' # r"
    using lr by (rule split_sep_two)
  have s: "s = (if f then ''+'' else []) @ s'"
    unfolding s'_def f_def startswith_def by (cases s) auto
  have "RefSpec_str R
      = (if f then ''+'' else []) @ (butlast l @ ''*'') @ '':'' @ (butlast r @ ''*'')"
    unfolding RefSpec_str_def R by simp
  also have "\<dots> = (if f then ''+'' else []) @ l @ '':'' @ r"
    using e by (simp only: endswith_star)
  also have "\<dots> = s"
    using s s' by simp
  finally show ?thesis .
qed

theorem parse_str_roundtrip_witness:
  "RefSpec_parse ''+refs/heads/*:refs/remotes/origin/*'' = Inr origin_refspec
   \<and> RefSpec_str origin_refspec = ''+refs/heads/*:refs/remotes/origin/*''"
proof -
  have h: "RefSpec_parse ''+refs/heads/*:refs/remotes/origin/*'' = Inr origin_refspec"
    by code_simp
  from h parse_str_roundtrip [OF h] show ?thesis by simp
qed

text \<open>
  The composition law as the specification words it, with the map phase applied right to
  left, fails already for the remote \<open>origin\<close>: the name the fetch phase produces lies under
  \<open>refs/remote-subdir/origin/\<close>, which is the left side of the mapspec, so \<open>mapspec.rtl\<close>
  does not match it.
\<close>

theorem split_composition_counterexample:
  "split_refspec origin_helper origin_refspec = Inr (origin_fetchspec, origin_mapspec)
   \<and> startswith ''refs/heads/main'' (left_prefix origin_refspec)
   \<and> Option.bind (ltr origin_fetchspec ''refs/heads/main'') (rtl origin_mapspec) = None
   \<and> ltr origin_refspec ''refs/heads/main'' = Some ''refs/remotes/origin/main''"
  by code_simp

text \<open>
  Claim C4 (split composition), amended: for every RefSpec \<open>R\<close> that \<open>split_refspec\<close>
  accepts (its right prefix starts with the mapped prefix), with \<open>(fetchspec, mapspec)\<close> the
  pair derived from it, and for every ref \<open>x\<close> that starts with the left prefix of \<open>R\<close>:
  mapping \<open>x\<close> left to right through the fetchspec and the result left to right through the
  mapspec gives \<open>R.ltr(x)\<close>, which is a name.
\<close>

theorem split_composition:
  assumes "split_refspec h R = Inr (fetchspec, mapspec)"
    and "startswith x (left_prefix R)"
  shows "Option.bind (ltr fetchspec x) (ltr mapspec) = ltr R x \<and> ltr R x \<noteq> None"
proof -
  define updated where
    "updated = unmapped_ref_prefix h @ drop (length (mapped_ref_prefix h)) (right_prefix R)"
  from assms(1) have f: "fetchspec = with_right R updated (Some True)"
    and m: "mapspec = with_left R updated None"
    by (auto simp: split_refspec_def Let_def updated_def split: if_splits)
  have "ltr fetchspec x = Some (updated @ drop (length (left_prefix R)) x)"
    using assms(2) by (simp add: f ltr_def with_right_def)
  moreover have "ltr mapspec (updated @ drop (length (left_prefix R)) x)
      = Some (right_prefix R @ drop (length (left_prefix R)) x)"
    by (simp add: m ltr_def with_left_def startswith_append)
  moreover have "ltr R x = Some (right_prefix R @ drop (length (left_prefix R)) x)"
    using assms(2) by (simp add: ltr_def)
  ultimately show ?thesis by simp
qed

theorem split_composition_witness:
  "split_refspec origin_helper origin_refspec = Inr (origin_fetchspec, origin_mapspec)
   \<and> startswith ''refs/heads/main'' (left_prefix origin_refspec)
   \<and> Option.bind (ltr origin_fetchspec ''refs/heads/main'') (ltr origin_mapspec)
       = ltr origin_refspec ''refs/heads/main''
   \<and> ltr origin_refspec ''refs/heads/main'' \<noteq> None"
proof -
  have a: "split_refspec origin_helper origin_refspec = Inr (origin_fetchspec, origin_mapspec)"
    by code_simp
  have b: "startswith ''refs/heads/main'' (left_prefix origin_refspec)"
    by code_simp
  from a b split_composition [OF a b] show ?thesis by simp
qed

section \<open>The DirSpec stub\<close>

text \<open>
  Claim C9: for every DirSpec with a non-empty \<open>left_dir\<close> or a non-empty \<open>right_dir\<close>,
  \<open>ltr\<close> raises \<open>NotImplementedError\<close> (the signal \<open>UnsupportedDirSpec\<close>) for every tree
  identifier; \<open>":"\<close> parses to the DirSpec with both directories empty, and on that one
  \<open>ltr\<close> returns its argument unchanged.
\<close>

theorem DirSpec_ltr_stub:
  "(left_dir d \<noteq> [] \<or> right_dir d \<noteq> [] \<longrightarrow> DirSpec_ltr d t = Inl UnsupportedDirSpec)
   \<and> DirSpec_parse (Some '':'') = Inr \<lparr>left_dir = [], right_dir = []\<rparr>
   \<and> DirSpec_ltr \<lparr>left_dir = [], right_dir = []\<rparr> t = Inr t"
  by (simp add: DirSpec_ltr_def DirSpec_parse_def startswith_def rstrip_char_def)

theorem DirSpec_ltr_stub_witness:
  "DirSpec_parse (Some ''app:lib'') = Inr \<lparr>left_dir = ''app'', right_dir = ''lib''\<rparr>
   \<and> DirSpec_str \<lparr>left_dir = ''app'', right_dir = ''lib''\<rparr> = ''app:lib''
   \<and> DirSpec_ltr \<lparr>left_dir = ''app'', right_dir = ''lib''\<rparr> ''abc123'' = Inl UnsupportedDirSpec
   \<and> DirSpec_ltr \<lparr>left_dir = [], right_dir = []\<rparr> ''abc123'' = Inr ''abc123''"
proof -
  have p: "DirSpec_parse (Some ''app:lib'') = Inr \<lparr>left_dir = ''app'', right_dir = ''lib''\<rparr>"
    by code_simp
  have s: "DirSpec_str \<lparr>left_dir = ''app'', right_dir = ''lib''\<rparr> = ''app:lib''"
    by code_simp
  from p s DirSpec_ltr_stub [of "\<lparr>left_dir = ''app'', right_dir = ''lib''\<rparr>" "''abc123''"]
  show ?thesis by simp
qed

section \<open>Constructing the helper\<close>

text \<open>
  What the constructor does when a configuration value is absent, for any runner.  An
  absent \<open>dirspec\<close> ends it in \<open>DirSpec.parse\<close>, whatever the other two values are.  With
  a \<open>dirspec\<close> that parses and refspecs that parse, an absent \<open>url\<close> or an absent \<open>fetch\<close>
  raises the error for missing configuration.
\<close>

lemma init_dirspec_absent:
  assumes "config_get_one run \<lparr>git_dir = gd\<rparr> (''remote.'' @ n @ ''.url'') w = (url_opt, w1)"
    and "config_get_one run \<lparr>git_dir = gd\<rparr> (''remote.'' @ n @ ''.dirspec'') w1 = (None, w2)"
  shows "RemoteSubdirHelper_init run gd n w = (Inl (AttributeError ''split''), w2)"
  using assms by (simp add: RemoteSubdirHelper_init_def DirSpec_parse_def)

lemma init_url_or_fetch_absent:
  assumes "config_get_one run \<lparr>git_dir = gd\<rparr> (''remote.'' @ n @ ''.url'') w = (url_opt, w1)"
    and "config_get_one run \<lparr>git_dir = gd\<rparr> (''remote.'' @ n @ ''.dirspec'') w1 = (Some ds, w2)"
    and "DirSpec_parse (Some ds) = Inr d"
    and "config_get_all run \<lparr>git_dir = gd\<rparr> (''remote.'' @ n @ ''.fetch'') w2 = (raw, w3)"
    and "parse_refspecs raw = Inr rs"
    and "url_opt = None \<or> raw = []"
  shows "RemoteSubdirHelper_init run gd n w = (Inl (ValueError MissingConfiguration), w3)"
proof -
  from assms(5,6) have "url_opt = None \<or> rs = []" by auto
  with assms(1-5) show ?thesis
    by (auto simp: RemoteSubdirHelper_init_def split: option.splits)
qed

text \<open>
  Claim C7 says that the constructor raises the \<open>ValueError\<close> for missing configuration
  whenever \<open>url\<close>, \<open>dirspec\<close> or \<open>fetch\<close> is not configured.  With \<open>url\<close> and \<open>fetch\<close>
  configured and \<open>dirspec\<close> not, \<open>config_get_one\<close> returns \<open>None\<close>, and \<open>DirSpec.parse\<close>,
  which runs before the test for missing values, raises \<open>AttributeError\<close> on
  \<open>None.split\<close>.
\<close>

theorem init_without_dirspec:
  "fst (RemoteSubdirHelper_init sim_git ''.git'' ''origin'' no_dirspec_world)
     = Inl (AttributeError ''split'')
   \<and> fst (RemoteSubdirHelper_init sim_git ''.git'' ''origin'' no_dirspec_world)
     \<noteq> Inl (ValueError MissingConfiguration)"
  by code_simp

section \<open>The handlers\<close>

text \<open>
  The specification's first scenario expects the output \<open>fetch\<close>, a line feed and a blank
  line; the handler writes an asterisk before the capability name.
\<close>

theorem capabilities_counterexample:
  "snd (do_capabilities origin_helper []) = ''*fetch'' @ [CHR 0x0A, CHR 0x0A]
   \<and> snd (do_capabilities origin_helper []) \<noteq> ''fetch'' @ [CHR 0x0A, CHR 0x0A]"
  by code_simp

text \<open>
  Claim C3, amended: on the \<open>capabilities\<close> command the handler writes exactly one
  capability line, the token \<open>fetch\<close> with an asterisk before it, and then a blank line
  (in all \<open>*fetch\<close>, line feed, line feed); it does not raise, and it leaves the world
  outside the script as it was.
\<close>

theorem capabilities_output:
  "do_capabilities h f = (Inr (), f @ ''*fetch'' @ [CHR 0x0A, CHR 0x0A])
   \<and> dispatch run h ''capabilities'' [] w f = (Inr (), w, f @ ''*fetch'' @ [CHR 0x0A, CHR 0x0A])
   \<and> process_commands run h w (''capabilities'' @ [CHR 0x0A, CHR 0x0A]) []
       = (Inr (), w, [], ''*fetch'' @ [CHR 0x0A, CHR 0x0A])"
proof -
  have c: "do_capabilities h f = (Inr (), f @ ''*fetch'' @ [CHR 0x0A, CHR 0x0A])" for f
    by (simp add: do_capabilities_def)
  have d: "dispatch run h ''capabilities'' [] w f
             = (Inr (), w, f @ ''*fetch'' @ [CHR 0x0A, CHR 0x0A])" for f
    by (simp add: dispatch_def c)
  have t: "split_ws (rstrip (''capabilities'' @ [CHR 0x0A])) = [''capabilities'']"
    by code_simp
  have e: "process_commands run h w [CHR 0x0A] out = (Inr (), w, [], out)" for out
    by (subst process_commands.simps) simp
  have p: "process_commands run h w (''capabilities'' @ [CHR 0x0A, CHR 0x0A]) []
       = (Inr (), w, [], ''*fetch'' @ [CHR 0x0A, CHR 0x0A])"
    using t by (subst process_commands.simps) (simp add: d e)
  from c d p show ?thesis by blast
qed

text \<open>
  Claim C1: for the remote \<open>origin\<close> with url \<open>https://example/repo.git\<close>, dirspec \<open>:\<close> and
  the fetch refspec \<open>+refs/heads/*:refs/remotes/origin/*\<close>, where the remote advertises
  \<open>refs/heads/main\<close> at \<open>abc123\<close>, the session with the input \<open>list\<close> and a blank line
  reads the three configuration values, runs \<open>git fetch\<close> on the url with the one refspec
  \<open>+refs/heads/*:refs/remote-subdir/origin/*\<close>, enumerates the refs under
  \<open>refs/remote-subdir/origin/\<close>, and writes exactly the line \<open>abc123 refs/heads/main\<close>
  and a blank line.
\<close>

theorem list_scenario:
  "fst (RemoteSubdirHelper_init sim_git ''.git'' ''origin'' origin_world) = Inr origin_helper
   \<and> map RefSpec_str (fetchspecs origin_helper) = [''+refs/heads/*:refs/remote-subdir/origin/*'']
   \<and> main sim_git ''.git'' ''origin'' origin_world (''list'' @ [CHR 0x0A, CHR 0x0A])
     = (Inr (),
        origin_world\<lparr>
          local_refs := [(''abc123'', ''refs/remote-subdir/origin/main'')],
          calls :=
            [[''git'', ''--git-dir=.git'', ''config'', ''--get'', ''remote.origin.url''],
             [''git'', ''--git-dir=.git'', ''config'', ''--get'', ''remote.origin.dirspec''],
             [''git'', ''--git-dir=.git'', ''config'', ''--get'', ''remote.origin.fetch''],
             [''git'', ''--git-dir=.git'', ''fetch'', ''https://example/repo.git'',
              ''+refs/heads/*:refs/remote-subdir/origin/*''],
             [''git'', ''--git-dir=.git'', ''for-each-ref'',
              ''--format=%(objectname)%00%(refname)'', ''refs/remote-subdir/origin/'']]\<rparr>,
        [],
        ''abc123 refs/heads/main'' @ [CHR 0x0A, CHR 0x0A])"
  by code_simp

text \<open>
  The name in a response line of \<open>list\<close> is not the first mapspec's right-to-left image of
  the unmapped name: for \<open>origin\<close> that image is \<open>None\<close>, and the line carries
  \<open>refs/heads/main\<close>.
\<close>

theorem list_mapspec_counterexample:
  "rtl origin_mapspec ''refs/remote-subdir/origin/main'' = None
   \<and> mapspecs origin_helper = [origin_mapspec]
   \<and> snd (snd (do_list sim_git origin_helper origin_world []))
       = ''abc123 refs/heads/main'' @ [CHR 0x0A, CHR 0x0A]
   \<and> snd (snd (do_list sim_git origin_helper origin_world []))
       \<noteq> ''abc123 '' @ format_opt (rtl origin_mapspec ''refs/remote-subdir/origin/main'')
            @ [CHR 0x0A, CHR 0x0A]"
  by code_simp

lemma write_refs_ok:
  "fetchspecs h = fs0 # fss \<Longrightarrow>
   write_refs h (map Inr rs) f =
     (Inr (), f @ concat (map (\<lambda>(v, ref). v @ '' '' @ format_opt (rtl fs0 ref) @ [CHR 0x0A]) rs))"
  by (induction rs arbitrary: f) auto

text \<open>
  Claim C2, amended: when the fetch succeeds and the enumeration of the refs under the
  unmapped prefix yields the pairs \<open>rs\<close> (object id and unmapped name), \<open>list\<close> writes, for
  each pair in order, the object id, a space and the image of the unmapped name under
  the right-to-left mapping of the first derived fetchspec (the text \<open>None\<close> where that
  mapping does not match), and then a blank line.
\<close>

theorem do_list_lines:
  assumes "fetch run (git h) (url h) (map RefSpec_str (fetchspecs h)) w = (Inr (), w1)"
    and "refs run (git h) (unmapped_ref_prefix h) w1 = ((map Inr rs, False), w2)"
    and "fetchspecs h = fs0 # fss"
  shows "do_list run h w f =
     (Inr (), w2,
      f @ concat (map (\<lambda>(v, ref). v @ '' '' @ format_opt (rtl fs0 ref) @ [CHR 0x0A]) rs)
        @ [CHR 0x0A])"
  using assms by (simp add: do_list_def write_refs_ok)

theorem do_list_lines_witness:
  "fetch sim_git (git origin_helper) (url origin_helper)
       (map RefSpec_str (fetchspecs origin_helper)) origin_world
     = (Inr (),
        origin_world\<lparr>
          local_refs := [(''abc123'', ''refs/remote-subdir/origin/main'')],
          calls := [[''git'', ''--git-dir=.git'', ''fetch'', ''https://example/repo.git'',
                     ''+refs/heads/*:refs/remote-subdir/origin/*'']]\<rparr>)
   \<and> fetchspecs origin_helper = [origin_fetchspec]
   \<and> rtl origin_fetchspec ''refs/remote-subdir/origin/main'' = Some ''refs/heads/main''
   \<and> do_list sim_git origin_helper origin_world []
     = (Inr (),
        origin_world\<lparr>
          local_refs := [(''abc123'', ''refs/remote-subdir/origin/main'')],
          calls := [[''git'', ''--git-dir=.git'', ''fetch'', ''https://example/repo.git'',
                     ''+refs/heads/*:refs/remote-subdir/origin/*''],
                    [''git'', ''--git-dir=.git'', ''for-each-ref'',
                     ''--format=%(objectname)%00%(refname)'', ''refs/remote-subdir/origin/'']]\<rparr>,
        ''abc123 refs/heads/main'' @ [CHR 0x0A, CHR 0x0A])"
proof -
  define w1 where "w1 = origin_world\<lparr>
          local_refs := [(''abc123'', ''refs/remote-subdir/origin/main'')],
          calls := [[''git'', ''--git-dir=.git'', ''fetch'', ''https://example/repo.git'',
                     ''+refs/heads/*:refs/remote-subdir/origin/*'']]\<rparr>"
  define w2 where "w2 = origin_world\<lparr>
          local_refs := [(''abc123'', ''refs/remote-subdir/origin/main'')],
          calls := [[''git'', ''--git-dir=.git'', ''fetch'', ''https://example/repo.git'',
                     ''+refs/heads/*:refs/remote-subdir/origin/*''],
                    [''git'', ''--git-dir=.git'', ''for-each-ref'',
                     ''--format=%(objectname)%00%(refname)'', ''refs/remote-subdir/origin/'']]\<rparr>"
  have a: "fetch sim_git (git origin_helper) (url origin_helper)
       (map RefSpec_str (fetchspecs origin_helper)) origin_world = (Inr (), w1)"
    unfolding w1_def by code_simp
  have b: "refs sim_git (git origin_helper) (unmapped_ref_prefix origin_helper) w1
     = ((map Inr [(''abc123'', ''refs/remote-subdir/origin/main'')], False), w2)"
    unfolding w1_def w2_def by code_simp
  have c: "fetchspecs origin_helper = origin_fetchspec # []"
    by (simp add: origin_helper_def)
  have d: "rtl origin_fetchspec ''refs/remote-subdir/origin/main'' = Some ''refs/heads/main''"
    by code_simp
  from do_list_lines [OF a b c, of "[]"] a c d show ?thesis
    unfolding w1_def w2_def by (simp add: format_opt_def)
qed

text \<open>
  Claim C8: for every object id and ref name, the \<open>fetch\<close> handler raises \<open>RuntimeError\<close>
  (the signal \<open>UnexpectedFetchCall\<close>) and writes nothing; so does the dispatcher on a
  \<open>fetch\<close> command line with two arguments.
\<close>

theorem do_fetch_fails:
  "do_fetch h f sha1 name = (Inl UnexpectedFetchCall, f)
   \<and> dispatch run h ''fetch'' [sha1, name] w f = (Inl UnexpectedFetchCall, w, f)
   \<and> process_commands run h w (''fetch abc123 refs/heads/main'' @ [CHR 0x0A]) out
       = (Inl UnexpectedFetchCall, w, [], out)"
proof -
  have d: "dispatch run h ''fetch'' [sha1, name] w f = (Inl UnexpectedFetchCall, w, f)"
    for sha1 name f
    by (simp add: do_fetch_def dispatch_def)
  have t: "split_ws (rstrip (''fetch abc123 refs/heads/main'' @ [CHR 0x0A]))
             = [''fetch'', ''abc123'', ''refs/heads/main'']"
    by code_simp
  have p: "process_commands run h w (''fetch abc123 refs/heads/main'' @ [CHR 0x0A]) out
       = (Inl UnexpectedFetchCall, w, [], out)"
    using t by (subst process_commands.simps) (simp add: d)
  from d p show ?thesis by (simp add: do_fetch_def)
qed

section \<open>The dispatcher on a blank line that is not empty\<close>

text \<open>
  Claim C10: when the line read is not empty, is not a lone line feed, and consists of
  whitespace only, its list of words is empty, and the session ends there with
  \<open>IndexError\<close>: the loop is not left normally, no handler runs, nothing is written and no
  subprocess is started.
\<close>

theorem whitespace_line_aborts:
  assumes "readline in_f = (line, in_rest)"
    and "line \<noteq> []" and "line \<noteq> [CHR 0x0A]"
    and "\<forall>c\<in>set line. is_space c"
  shows "split_ws (rstrip line) = []
     \<and> process_commands run h w in_f out_f = (Inl IndexError, w, in_rest, out_f)"
proof -
  have t: "split_ws (rstrip line) = []"
    using assms(4) by (simp add: rstrip_spaces split_ws_def)
  show ?thesis
    using assms(1-3) t by (subst process_commands.simps) simp
qed

theorem whitespace_line_aborts_witness:
  "readline (''  '' @ [CHR 0x0A] @ ''list'' @ [CHR 0x0A]) = (''  '' @ [CHR 0x0A], ''list'' @ [CHR 0x0A])
   \<and> list_all is_space (''  '' @ [CHR 0x0A])
   \<and> split_ws (rstrip (''  '' @ [CHR 0x0A])) = []
   \<and> process_commands sim_git origin_helper origin_world
         (''  '' @ [CHR 0x0A] @ ''list'' @ [CHR 0x0A]) []
       = (Inl IndexError, origin_world, ''list'' @ [CHR 0x0A], [])"
proof -
  have a: "readline (''  '' @ [CHR 0x0A] @ ''list'' @ [CHR 0x0A])
             = (''  '' @ [CHR 0x0A], ''list'' @ [CHR 0x0A])"
    by simp
  have b: "''  '' @ [CHR 0x0A] \<noteq> []" "''  '' @ [CHR 0x0A] \<noteq> [CHR 0x0A]"
    by simp_all
  have c: "\<forall>c\<in>set (''  '' @ [CHR 0x0A]). is_space c"
    by (simp add: is_space_def whitespace_def)
  from a c whitespace_line_aborts [OF a b c, of sim_git origin_helper origin_world "[]"]
  show ?thesis by (simp add: list_all_iff)
qed

end
